theory Spec2Isabelle
  imports Complex_Main "HOL-Library.AList"
begin

section \<open>Data model (types.ts)\<close>

text \<open>
  The interfaces \<^verbatim>\<open>JetstreamEvent\<close>, \<^verbatim>\<open>StoredStats\<close> and \<^verbatim>\<open>QueueMessage\<close>.
  A JavaScript \<^verbatim>\<open>number\<close> that holds a timestamp or a counter is modelled as an \<open>int\<close>:
  the values are integers far below \<open>2^53\<close>, where the arithmetic of doubles is exact.
  A string-literal union is a datatype, an optional field an \<open>option\<close>.
  \<^verbatim>\<open>Record<string, number>\<close> is the list of the object's own entries in insertion
  order, read with \<open>map_of\<close> and written with \<open>AList.update\<close> (an existing key keeps
  its place, a new key goes to the end). Only the entries of the object itself are
  modelled, not the properties a plain object inherits from \<^verbatim>\<open>Object.prototype\<close>, whose
  names (\<^verbatim>\<open>constructor\<close>, \<^verbatim>\<open>toString\<close>, ...) are not collection names of the feed.
\<close>

datatype kind = Commit | Identity | Account

datatype operation = Create | Update | Delete

record commit_body =
  rev_c :: string
  operation :: operation
  collection :: string
  rkey :: string
  record_c :: "string option"
  cid :: "string option"

record identity_body =
  did_i :: string
  handle_i :: string
  seq_i :: int
  time_i :: string

record account_body =
  active :: bool
  did_a :: string
  seq_a :: int
  time_a :: string

record JetstreamEvent =
  did :: string
  time_us :: int
  kind :: kind
  commit :: "commit_body option"
  identity :: "identity_body option"
  account :: "account_body option"

record StoredStats =
  cursor :: int
  eventCounts :: "(string \<times> int) list"
  totalEvents :: int
  totalReceived :: int
  lastEventTime :: string

record QueueMessage =
  event :: JetstreamEvent
  queuedAt :: string
  retryCount :: "int option"

section \<open>Numbers in template strings and query parameters\<close>

text \<open>
  \<^verbatim>\<open>Number.prototype.toString\<close> on an integer: its decimal digits, with a leading
  minus sign when it is negative.
\<close>

definition digit_char :: "nat \<Rightarrow> char" where
  "digit_char d = ''0123456789'' ! d"

fun nat_digits :: "nat \<Rightarrow> string" where
  "nat_digits n =
     (if n < 10 then [digit_char n] else nat_digits (n div 10) @ [digit_char (n mod 10)])"

declare nat_digits.simps [simp del]

definition toString :: "int \<Rightarrow> string" where
  "toString i = (if i < 0 then CHR ''-'' # nat_digits (nat (- i)) else nat_digits (nat i))"




section \<open>The Durable Object \<^verbatim>\<open>JetstreamProcessor\<close>\<close>

text \<open>
  The state of the object and of the bindings it writes to: the in-memory \<^verbatim>\<open>stats\<close>,
  the value stored under the key \<^verbatim>\<open>"stats"\<close> in \<^verbatim>\<open>ctx.storage\<close>, the messages
  accepted by \<^verbatim>\<open>env.JETSTREAM_QUEUE\<close>, and the lines written to the console.
\<close>

datatype js_error = Error string

datatype console_line = console_log string | console_error string js_error

record processor =
  stats :: StoredStats
  storage :: "StoredStats option"
  JETSTREAM_QUEUE :: "QueueMessage list"
  console :: "console_line list"

text \<open>
  What the environment answers while one event is processed: the two readings of the
  clock (\<^verbatim>\<open>new Date().toISOString()\<close>), whether \<^verbatim>\<open>JETSTREAM_QUEUE.send\<close> throws, and
  whether \<^verbatim>\<open>ctx.storage.put\<close> throws.
\<close>

record io =
  now_event :: string
  now_queued :: string
  send_throws :: "js_error option"
  put_throws :: "js_error option"

text \<open>The field initialiser of \<^verbatim>\<open>stats\<close>, which \<^verbatim>\<open>resetStats\<close> repeats.\<close>

definition zero_stats :: "string \<Rightarrow> StoredStats" where
  "zero_stats now =
     \<lparr>cursor = 0, eventCounts = [], totalEvents = 0, totalReceived = 0, lastEventTime = now\<rparr>"

definition new_processor :: "string \<Rightarrow> processor" where
  "new_processor now =
     \<lparr>stats = zero_stats now, storage = None, JETSTREAM_QUEUE = [], console = []\<rparr>"

text \<open>\<^verbatim>\<open>await this.ctx.storage.put("stats", this.stats)\<close>: stores, or throws.\<close>

definition storage_put :: "js_error option \<Rightarrow> processor \<Rightarrow> processor \<times> js_error option" where
  "storage_put thrown p =
     (case thrown of
        None \<Rightarrow> (p\<lparr>storage := Some (stats p)\<rparr>, None)
      | Some err \<Rightarrow> (p, Some err))"

text \<open>
  Lines 141 to 145 of \<^verbatim>\<open>processEvent\<close>. The guard \<^verbatim>\<open>event.commit?.collection\<close> is a
  truthiness test: it fails when \<^verbatim>\<open>commit\<close> is absent and when the collection is the
  empty string. \<^verbatim>\<open>eventCounts[collection] || 0\<close> is \<open>0\<close> for a missing entry and for an
  entry that is \<open>0\<close>.
\<close>

definition operation_name :: "operation \<Rightarrow> string" where
  "operation_name op = (case op of Create \<Rightarrow> ''create'' | Update \<Rightarrow> ''update'' | Delete \<Rightarrow> ''delete'')"

definition count_or_zero :: "(string \<times> int) list \<Rightarrow> string \<Rightarrow> int" where
  "count_or_zero counts c = (case map_of counts c of None \<Rightarrow> 0 | Some v \<Rightarrow> if v = 0 then 0 else v)"

definition track_collection :: "JetstreamEvent \<Rightarrow> processor \<Rightarrow> processor" where
  "track_collection ev p =
     (case commit ev of
        None \<Rightarrow> p
      | Some cb \<Rightarrow>
          if collection cb = [] then p
          else
            p\<lparr>stats := (stats p)\<lparr>eventCounts :=
                  AList.update (collection cb)
                    (count_or_zero (eventCounts (stats p)) (collection cb) + 1)
                    (eventCounts (stats p))\<rparr>,
              console := console p @
                  [console_log (''Processing '' @ operation_name (operation cb) @
                     '' event for collection: '' @ collection cb)]\<rparr>)"

text \<open>
  Lines 148 to 162: the \<^verbatim>\<open>try\<close> around \<^verbatim>\<open>JETSTREAM_QUEUE.send\<close>. The \<^verbatim>\<open>catch\<close> logs and
  does nothing else.
\<close>

definition send_to_queue :: "io \<Rightarrow> JetstreamEvent \<Rightarrow> processor \<Rightarrow> processor" where
  "send_to_queue w ev p =
     (let queueMessage = \<lparr>event = ev, queuedAt = now_queued w, retryCount = Some 0\<rparr>
      in case send_throws w of
           None \<Rightarrow>
             p\<lparr>JETSTREAM_QUEUE := JETSTREAM_QUEUE p @ [queueMessage],
               console := console p @
                 [console_log (''Event queued successfully: '' @ toString (time_us ev))]\<rparr>
         | Some err \<Rightarrow>
             p\<lparr>console := console p @ [console_error ''Error sending to queue:'' err]\<rparr>)"

text \<open>
  \<^verbatim>\<open>processEvent\<close>. The result is the state it leaves and the exception it throws, if
  any; the only statement that can throw outside a \<^verbatim>\<open>try\<close> is the periodic
  \<^verbatim>\<open>storage.put\<close>. \<^verbatim>\<open>totalEvents % 100 === 0\<close> holds exactly when 100 divides the
  counter, whatever its sign.
\<close>

definition processEvent :: "io \<Rightarrow> JetstreamEvent \<Rightarrow> processor \<Rightarrow> processor \<times> js_error option" where
  "processEvent w ev p =
     (let p1 = p\<lparr>stats := (stats p)\<lparr>cursor := time_us ev,
                                     totalReceived := totalReceived (stats p) + 1\<rparr>\<rparr>
      in if kind ev \<noteq> Commit then (p1, None)
         else
           let p2 = p1\<lparr>stats := (stats p1)\<lparr>totalEvents := totalEvents (stats p1) + 1,
                                            lastEventTime := now_event w\<rparr>\<rparr>;
               p3 = track_collection ev p2;
               p4 = send_to_queue w ev p3
           in if totalEvents (stats p4) mod 100 = 0 then storage_put (put_throws w) p4
              else (p4, None))"

text \<open>
  The \<^verbatim>\<open>"message"\<close> listener of the socket, after the message is decoded: it awaits
  \<^verbatim>\<open>processEvent\<close> and logs what it throws.
\<close>

definition on_message :: "io \<Rightarrow> JetstreamEvent \<Rightarrow> processor \<Rightarrow> processor" where
  "on_message w ev p =
     (case processEvent w ev p of
        (p', None) \<Rightarrow> p'
      | (p', Some err) \<Rightarrow>
          p'\<lparr>console := console p' @ [console_error ''Error processing Jetstream event:'' err]\<rparr>)"

text \<open>
  The events of a stream, each with the environment's answers, handled in order of
  arrival and one at a time. All updates of \<^verbatim>\<open>stats\<close> in \<^verbatim>\<open>processEvent\<close> come before
  its first \<^verbatim>\<open>await\<close>, so they are applied event by event in this order.
\<close>

fun processEvents :: "(io \<times> JetstreamEvent) list \<Rightarrow> processor \<Rightarrow> processor" where
  "processEvents [] p = p"
| "processEvents ((w, ev) # rest) p = processEvents rest (on_message w ev p)"

text \<open>
  \<^verbatim>\<open>resetStats\<close>: the in-memory record is replaced, then written to the store.
\<close>

definition resetStats :: "string \<Rightarrow> js_error option \<Rightarrow> processor \<Rightarrow> processor \<times> js_error option" where
  "resetStats now thrown p = storage_put thrown (p\<lparr>stats := zero_stats now\<rparr>)"

section \<open>Connecting and reconnecting\<close>







text \<open>
  \<^verbatim>\<open>scheduleReconnect\<close>. The draw of \<^verbatim>\<open>Math.random()\<close> is the parameter \<open>r\<close>; the draw
  and the delay are real numbers, \<^verbatim>\<open>Math.pow(2, r)\<close> is \<open>2 powr r\<close> (the rounding of
  doubles is not modelled). The pending timer is kept as the delay it was set with.
\<close>

definition reconnect_delay :: "real \<Rightarrow> real" where
  "reconnect_delay r =
     (let baseDelay = 1000; maxDelay = 30000 in min (baseDelay * 2 powr r) maxDelay)"

definition scheduleReconnect :: "real \<Rightarrow> real option \<Rightarrow> real option" where
  "scheduleReconnect r reconnectTimeout =
     (case reconnectTimeout of
        Some t \<Rightarrow> Some t
      | None \<Rightarrow> Some (reconnect_delay r))"

section \<open>The queue consumer\<close>

text \<open>
  The configuration the worker is deployed with, as \<^verbatim>\<open>.dev.vars.example\<close> and
  \<^verbatim>\<open>setup-secrets.sh\<close> set it. The handler \<^verbatim>\<open>queue(batch, env, ctx)\<close> receives it.
\<close>

record Env =
  WEBHOOK_URL :: "string option"
  JETSTREAM_COLLECTIONS :: "string option"
  WEBHOOK_BEARER_TOKEN :: "string option"

text \<open>
  The argument of \<^verbatim>\<open>fetch\<close>. The body is \<^verbatim>\<open>JSON.stringify(event)\<close>, kept as the event
  it serialises.
\<close>

record http_request =
  request_url :: string
  request_method :: string
  headers :: "(string \<times> string) list"
  body :: JetstreamEvent

text \<open>
  What \<^verbatim>\<open>fetch\<close> does: it resolves to a response with a status and a status text, or
  it rejects (a transport error). \<^verbatim>\<open>Response.ok\<close> is true for a status from 200 to 299.
\<close>

datatype fetch_result = Response int string | Rejected js_error

definition response_ok :: "int \<Rightarrow> bool" where
  "response_ok st = (200 \<le> st \<and> st \<le> 299)"

definition webhook_request :: "JetstreamEvent \<Rightarrow> http_request" where
  "webhook_request ev =
     (let webhookUrl = ''https://doingtunnel.doing.work/api/webhooks/jetstream-event''
      in \<lparr>request_url = webhookUrl,
          request_method = ''POST'',
          headers = [(''Content-Type'', ''application/json''),
                     (''User-Agent'', ''Jetstream-Unified/1.0'')],
          body = ev\<rparr>)"

text \<open>\<^verbatim>\<open>sendToWebhook\<close>: \<open>None\<close> when it returns, the exception when it throws.\<close>

definition sendToWebhook :: "(http_request \<Rightarrow> fetch_result) \<Rightarrow> JetstreamEvent \<Rightarrow> js_error option" where
  "sendToWebhook fetch ev =
     (case fetch (webhook_request ev) of
        Rejected err \<Rightarrow> Some err
      | Response st txt \<Rightarrow>
          if \<not> response_ok st then
            Some (Error (''Webhook request failed: '' @ toString st @ '' '' @ txt))
          else None)"

text \<open>
  One message of a batch: the request it made, the calls made on the message
  (\<^verbatim>\<open>message.ack()\<close>, \<^verbatim>\<open>message.retry()\<close>) in order, and the lines it logged.
\<close>

datatype message_call = ack | retry

record delivery =
  fetched :: http_request
  calls :: "message_call list"
  logged :: "console_line list"

definition collection_or_non_commit :: "JetstreamEvent \<Rightarrow> string" where
  "collection_or_non_commit ev =
     (case commit ev of
        None \<Rightarrow> ''non-commit''
      | Some cb \<Rightarrow> if collection cb = [] then ''non-commit'' else collection cb)"

definition process_message :: "(http_request \<Rightarrow> fetch_result) \<Rightarrow> QueueMessage \<Rightarrow> delivery" where
  "process_message fetch queueMessage =
     (case sendToWebhook fetch (event queueMessage) of
        None \<Rightarrow>
          \<lparr>fetched = webhook_request (event queueMessage),
           calls = [ack],
           logged = [console_log (''Successfully processed event '' @
                       toString (time_us (event queueMessage)) @ '' for collection: '' @
                       collection_or_non_commit (event queueMessage))]\<rparr>
      | Some err \<Rightarrow>
          \<lparr>fetched = webhook_request (event queueMessage),
           calls = [retry],
           logged = [console_error ''Failed to process queue message:'' err]\<rparr>)"

text \<open>
  The handler \<^verbatim>\<open>queue\<close>: every message of the batch is handled by its own promise, and
  \<^verbatim>\<open>Promise.allSettled\<close> waits for all of them. \<open>net i\<close> is what \<^verbatim>\<open>fetch\<close> does for the
  message at position \<open>i\<close>.
\<close>

definition queue :: "Env \<Rightarrow> (nat \<Rightarrow> http_request \<Rightarrow> fetch_result) \<Rightarrow> QueueMessage list \<Rightarrow> delivery list" where
  "queue env net messages =
     map (\<lambda>i. process_message (net i) (messages ! i)) [0..<length messages]"

section \<open>Counting the events of a stream\<close>

text \<open>What the statements below count and compare with the statistics.\<close>

definition time_stamps :: "(io \<times> JetstreamEvent) list \<Rightarrow> int list" where
  "time_stamps es = map (\<lambda>x. time_us (snd x)) es"




definition carries_collection :: "JetstreamEvent \<Rightarrow> bool" where
  "carries_collection ev = (commit ev \<noteq> None)"


definition every_commit :: "(JetstreamEvent \<Rightarrow> bool) \<Rightarrow> (io \<times> JetstreamEvent) list \<Rightarrow> bool" where
  "every_commit P es = list_all (\<lambda>x. kind (snd x) = Commit \<longrightarrow> P (snd x)) es"


definition sum_counts :: "(string \<times> int) list \<Rightarrow> int" where
  "sum_counts counts = sum_list (map snd counts)"

text \<open>Sample values: an environment in which nothing fails, and events of each shape.\<close>

definition calm :: io where
  "calm = \<lparr>now_event = ''2025-06-01T00:00:00.000Z'', now_queued = ''2025-06-01T00:00:00.001Z'',
           send_throws = None, put_throws = None\<rparr>"


definition plain_event :: "int \<Rightarrow> kind \<Rightarrow> JetstreamEvent" where
  "plain_event t k =
     \<lparr>did = ''did:plc:abc'', time_us = t, kind = k, commit = None, identity = None,
      account = None\<rparr>"

definition commit_event :: "int \<Rightarrow> string \<Rightarrow> JetstreamEvent" where
  "commit_event t c =
     (plain_event t Commit)\<lparr>commit :=
        Some \<lparr>rev_c = ''3l3qo2vutsw2b'', operation = Create, collection = c,
              rkey = ''3l3qo2vuowo2b'', record_c = None, cid = None\<rparr>\<rparr>"

definition deployed :: Env where
  "deployed = \<lparr>WEBHOOK_URL = Some ''https://example.com/api/webhooks/jetstream-event'',
               JETSTREAM_COLLECTIONS = Some ''app.bsky.feed.post,app.bsky.graph.follow'',
               WEBHOOK_BEARER_TOKEN = Some ''your-bearer-token-here''\<rparr>"

definition sample_message :: "int \<Rightarrow> QueueMessage" where
  "sample_message t =
     \<lparr>event = commit_event t ''work.doing.task'', queuedAt = ''2025-06-01T00:00:00.001Z'',
      retryCount = Some 0\<rparr>"

text \<open>
  A network in which the first request of a batch is answered with status 500, the second
  fails in transport, and every other one is answered with status 200.
\<close>

definition flaky_net :: "nat \<Rightarrow> http_request \<Rightarrow> fetch_result" where
  "flaky_net i req =
     (if i = 0 then Response 500 ''Internal Server Error''
      else if i = 1 then Rejected (Error ''fetch failed'')
      else Response 200 ''OK'')"

text \<open>The webhook answered with an HTTP 2xx status.\<close>

definition returned_2xx :: "fetch_result \<Rightarrow> bool" where
  "returned_2xx r = (case r of Response st txt \<Rightarrow> 200 \<le> st \<and> st \<le> 299 | Rejected err \<Rightarrow> False)"

section \<open>Auxiliary facts\<close>

subsection \<open>Decimal text\<close>







subsection \<open>One event\<close>

lemma stats_storage_put: "stats (fst (storage_put thrown p)) = stats p"
  by (simp add: storage_put_def split: option.splits)

lemma stats_send_to_queue: "stats (send_to_queue w ev p) = stats p"
  by (simp add: send_to_queue_def Let_def split: option.splits)

lemma track_collection_fields:
  "cursor (stats (track_collection ev p)) = cursor (stats p)"
  "totalEvents (stats (track_collection ev p)) = totalEvents (stats p)"
  "totalReceived (stats (track_collection ev p)) = totalReceived (stats p)"
  "lastEventTime (stats (track_collection ev p)) = lastEventTime (stats p)"
  "JETSTREAM_QUEUE (track_collection ev p) = JETSTREAM_QUEUE p"
  "storage (track_collection ev p) = storage p"
  by (simp_all add: track_collection_def split: option.splits)

lemma track_collection_counts:
  "eventCounts (stats (track_collection ev p)) =
     (case commit ev of
        None \<Rightarrow> eventCounts (stats p)
      | Some cb \<Rightarrow>
          if collection cb = [] then eventCounts (stats p)
          else AList.update (collection cb)
                 (count_or_zero (eventCounts (stats p)) (collection cb) + 1)
                 (eventCounts (stats p)))"
  by (simp add: track_collection_def split: option.splits)

lemma stats_on_message: "stats (on_message w ev p) = stats (fst (processEvent w ev p))"
  by (simp add: on_message_def split: prod.splits option.splits)

lemma processEvent_cursor: "cursor (stats (fst (processEvent w ev p))) = time_us ev"
  by (simp add: processEvent_def Let_def stats_storage_put stats_send_to_queue
      track_collection_fields)


lemma processEvent_totalEvents:
  "totalEvents (stats (fst (processEvent w ev p))) =
     totalEvents (stats p) + (if kind ev = Commit then 1 else 0)"
  by (simp add: processEvent_def Let_def stats_storage_put stats_send_to_queue
      track_collection_fields)

lemma processEvent_lastEventTime:
  "lastEventTime (stats (fst (processEvent w ev p))) =
     (if kind ev = Commit then now_event w else lastEventTime (stats p))"
  by (simp add: processEvent_def Let_def stats_storage_put stats_send_to_queue
      track_collection_fields)

lemma processEvent_eventCounts:
  "eventCounts (stats (fst (processEvent w ev p))) =
     (if kind ev = Commit then eventCounts (stats (track_collection ev p))
      else eventCounts (stats p))"
  by (simp add: processEvent_def Let_def stats_storage_put stats_send_to_queue
      track_collection_counts split: option.splits)

subsection \<open>Streams\<close>

lemma sorted_le_last: "sorted xs \<Longrightarrow> y \<in> set xs \<Longrightarrow> y \<le> last (xs :: int list)"
  by (induction xs) auto

lemma sorted_last_Max: "xs \<noteq> [] \<Longrightarrow> sorted xs \<Longrightarrow> Max (set xs) = last (xs :: int list)"
  by (rule Max_eqI) (auto simp: sorted_le_last)

lemma processEvents_cursor:
  "es \<noteq> [] \<Longrightarrow> cursor (stats (processEvents es p)) = last (time_stamps es)"
  by (induction es p rule: processEvents.induct)
     (auto simp: time_stamps_def stats_on_message processEvent_cursor)

















subsection \<open>The subscription URL, the consumer, the backoff\<close>


lemma process_message_calls:
  "calls (process_message fetch m) =
     (case fetch (webhook_request (event m)) of
        Response st txt \<Rightarrow> if response_ok st then [ack] else [retry]
      | Rejected err \<Rightarrow> [retry])"
  by (simp add: process_message_def sendToWebhook_def split: fetch_result.splits)

lemma queue_nth:
  "i < length messages \<Longrightarrow> queue env net messages ! i = process_message (net i) (messages ! i)"
  by (simp add: queue_def)

lemma length_queue: "length (queue env net messages) = length messages"
  by (simp add: queue_def)







lemma two_powr_bounds: "0 \<le> r \<Longrightarrow> r < 1 \<Longrightarrow> 1 \<le> (2::real) powr r \<and> 2 powr r < 2"
  by (smt (verit, best) ge_one_powr_ge_zero powr_less_cancel_iff powr_one)

section \<open>The cursor\<close>

text \<open>
  C1 (amended). After a non-empty sequence of events has been processed in order, from any
  state, \<^verbatim>\<open>stats.cursor\<close> is the \<^verbatim>\<open>time_us\<close> of the last event processed, whatever
  the kinds of the events. When the \<^verbatim>\<open>time_us\<close> values arrive in non-decreasing order,
  that is their maximum.
\<close>

theorem cursor_is_last_time_us:
  "es \<noteq> [] \<Longrightarrow>
   cursor (stats (processEvents es p)) = last (time_stamps es) \<and>
   (sorted (time_stamps es) \<longrightarrow>
      cursor (stats (processEvents es p)) = Max (set (time_stamps es)))"
proof -
  assume "es \<noteq> []"
  then have "time_stamps es \<noteq> []"
    by (simp add: time_stamps_def)
  with \<open>es \<noteq> []\<close> show ?thesis
    by (simp add: processEvents_cursor sorted_last_Max)
qed

text \<open>An account event at 100 followed by a commit at 150 leaves the cursor at 150.\<close>

theorem cursor_is_last_time_us_witness:
  "[(calm, plain_event 100 Account), (calm, commit_event 150 ''work.doing.task'')] \<noteq> [] \<and>
   sorted (time_stamps [(calm, plain_event 100 Account), (calm, commit_event 150 ''work.doing.task'')]) \<and>
   cursor (stats (processEvents
      [(calm, plain_event 100 Account), (calm, commit_event 150 ''work.doing.task'')]
      (new_processor []))) = 150"
  using cursor_is_last_time_us
    [of "[(calm, plain_event 100 Account), (calm, commit_event 150 ''work.doing.task'')]"
        "new_processor []"]
  by (simp add: time_stamps_def plain_event_def commit_event_def)

text \<open>
  C1 as stated fails when \<^verbatim>\<open>time_us\<close> goes back, as in a replay window: after a commit
  at 100 and an identity event at 50 the cursor is 50, and the maximum seen is 100.
\<close>

theorem cursor_not_maximum:
  "cursor (stats (processEvents
      [(calm, commit_event 100 ''work.doing.task''), (calm, plain_event 50 Identity)]
      (new_processor [])))
     \<noteq> Max (set (time_stamps
      [(calm, commit_event 100 ''work.doing.task''), (calm, plain_event 50 Identity)])) \<and>
   cursor (stats (processEvents
      [(calm, commit_event 100 ''work.doing.task''), (calm, plain_event 50 Identity)]
      (new_processor []))) = 50 \<and>
   Max (set (time_stamps
      [(calm, commit_event 100 ''work.doing.task''), (calm, plain_event 50 Identity)])) = 100"
  by (simp add: stats_on_message processEvent_cursor time_stamps_def plain_event_def
      commit_event_def)

section \<open>The totals\<close>



section \<open>The counts by collection\<close>




section \<open>The resume cursor\<close>



section \<open>Acknowledging and retrying\<close>

text \<open>
  C5. For every batch and every message in it, the handler makes exactly one call on the
  message: \<^verbatim>\<open>ack\<close> exactly when the webhook request for its event returned a 2xx status,
  and \<^verbatim>\<open>retry\<close> exactly when it returned another status or failed in transport. What
  happens to a message depends on its own request alone, so a failure of another message
  of the batch changes nothing for it.
\<close>

theorem ack_iff_2xx:
  "i < length messages \<Longrightarrow>
   length (queue env net messages) = length messages \<and>
   (calls (queue env net messages ! i) = [ack] \<longleftrightarrow>
      returned_2xx (net i (webhook_request (event (messages ! i))))) \<and>
   (calls (queue env net messages ! i) = [retry] \<longleftrightarrow>
      \<not> returned_2xx (net i (webhook_request (event (messages ! i))))) \<and>
   (net' i = net i \<longrightarrow> queue env net' messages ! i = queue env net messages ! i)"
proof -
  assume "i < length messages"
  then have own: "queue env f messages ! i = process_message (f i) (messages ! i)" for f
    by (rule queue_nth)
  have "calls (process_message (net i) (messages ! i)) = [ack] \<longleftrightarrow>
      returned_2xx (net i (webhook_request (event (messages ! i))))"
    by (cases "net i (webhook_request (event (messages ! i)))")
       (simp_all add: process_message_calls response_ok_def returned_2xx_def)
  moreover have "calls (process_message (net i) (messages ! i)) = [retry] \<longleftrightarrow>
      \<not> returned_2xx (net i (webhook_request (event (messages ! i))))"
    by (cases "net i (webhook_request (event (messages ! i)))")
       (simp_all add: process_message_calls response_ok_def returned_2xx_def)
  ultimately show ?thesis
    by (simp add: own length_queue)
qed

text \<open>
  A batch of three: the first answered with 500 and the second failing in transport are
  retried, the third, answered with 200, is acknowledged.
\<close>

theorem ack_iff_2xx_witness:
  "(2::nat) < length [sample_message 100, sample_message 200, sample_message 300] \<and>
   calls (queue deployed flaky_net
      [sample_message 100, sample_message 200, sample_message 300] ! 0) = [retry] \<and>
   calls (queue deployed flaky_net
      [sample_message 100, sample_message 200, sample_message 300] ! 1) = [retry] \<and>
   calls (queue deployed flaky_net
      [sample_message 100, sample_message 200, sample_message 300] ! 2) = [ack]"
proof -
  let ?batch = "[sample_message 100, sample_message 200, sample_message 300]"
  have len: "(2::nat) < length ?batch" "(1::nat) < length ?batch" "(0::nat) < length ?batch"
    by simp_all
  have first: "calls (queue deployed flaky_net ?batch ! 0) = [retry]"
    using ack_iff_2xx [OF len(3), of deployed flaky_net flaky_net]
    by (simp add: flaky_net_def returned_2xx_def)
  have second: "calls (queue deployed flaky_net ?batch ! 1) = [retry]"
    using ack_iff_2xx [OF len(2), of deployed flaky_net flaky_net]
    by (simp add: flaky_net_def returned_2xx_def)
  have third: "calls (queue deployed flaky_net ?batch ! 2) = [ack]"
    using ack_iff_2xx [OF len(1), of deployed flaky_net flaky_net]
    by (simp add: flaky_net_def returned_2xx_def)
  from first second third show ?thesis
    by simp
qed

section \<open>A failing enqueue\<close>



section \<open>Resetting the statistics\<close>

text \<open>
  C7. Whatever the state before, after \<^verbatim>\<open>resetStats\<close> the cursor, \<^verbatim>\<open>totalEvents\<close> and
  \<^verbatim>\<open>totalReceived\<close> are 0 and \<^verbatim>\<open>eventCounts\<close> is empty; the write to the store follows
  at once, and when it succeeds the store holds the new record (when it throws,
  \<^verbatim>\<open>resetStats\<close> throws the same error, the memory being reset all the same). A second
  \<^verbatim>\<open>resetStats\<close> leaves the counters and the cursor at zero.
\<close>

theorem resetStats_zeroes:
  "cursor (stats (fst (resetStats now thrown p))) = 0 \<and>
   totalEvents (stats (fst (resetStats now thrown p))) = 0 \<and>
   totalReceived (stats (fst (resetStats now thrown p))) = 0 \<and>
   eventCounts (stats (fst (resetStats now thrown p))) = [] \<and>
   stats (fst (resetStats now thrown p)) = zero_stats now \<and>
   storage (fst (resetStats now None p)) = Some (zero_stats now) \<and>
   snd (resetStats now None p) = None \<and>
   snd (resetStats now (Some err) p) = Some err \<and>
   cursor (stats (fst (resetStats now' thrown' (fst (resetStats now thrown p))))) = 0 \<and>
   totalEvents (stats (fst (resetStats now' thrown' (fst (resetStats now thrown p))))) = 0 \<and>
   totalReceived (stats (fst (resetStats now' thrown' (fst (resetStats now thrown p))))) = 0 \<and>
   eventCounts (stats (fst (resetStats now' thrown' (fst (resetStats now thrown p))))) = [] \<and>
   fst (resetStats now None (fst (resetStats now None p))) = fst (resetStats now None p)"
  by (simp add: resetStats_def storage_put_def zero_stats_def split: option.splits)

section \<open>The webhook request\<close>

text \<open>
  C8, at an input where the code departs from it. With a webhook URL and a bearer token
  configured, the request made for a message is a POST of the event with the headers
  \<^verbatim>\<open>Content-Type: application/json\<close> and \<^verbatim>\<open>User-Agent: Jetstream-Unified/1.0\<close>, but it
  goes to the URL written in \<^verbatim>\<open>sendToWebhook\<close>, not to the configured one, and it has no
  \<^verbatim>\<open>Authorization\<close> header.
\<close>

theorem webhook_request_ignores_configuration:
  "fetched (queue deployed net [sample_message 100] ! 0) =
     \<lparr>request_url = ''https://doingtunnel.doing.work/api/webhooks/jetstream-event'',
      request_method = ''POST'',
      headers = [(''Content-Type'', ''application/json''),
                 (''User-Agent'', ''Jetstream-Unified/1.0'')],
      body = event (sample_message 100)\<rparr> \<and>
   WEBHOOK_BEARER_TOKEN deployed = Some ''your-bearer-token-here'' \<and>
   map_of (headers (fetched (queue deployed net [sample_message 100] ! 0))) ''Authorization'' = None \<and>
   WEBHOOK_URL deployed = Some ''https://example.com/api/webhooks/jetstream-event'' \<and>
   request_url (fetched (queue deployed net [sample_message 100] ! 0))
     \<noteq> ''https://example.com/api/webhooks/jetstream-event''"
  by (simp add: queue_def process_message_def webhook_request_def deployed_def
      split: option.splits)

section \<open>The reconnect delay\<close>

text \<open>
  C9. For every draw \<open>r\<close> with \<open>0 \<le> r < 1\<close> the reconnect delay is at least 1000 and less
  than 2000 milliseconds: it is \<open>1000 * 2^r\<close>, which is below the cap of 30000, so the cap
  is never what \<^verbatim>\<open>Math.min\<close> selects. That is the delay of the timer
  \<^verbatim>\<open>scheduleReconnect\<close> sets when none is pending.
\<close>

theorem reconnect_delay_bounds:
  "0 \<le> r \<Longrightarrow> r < 1 \<Longrightarrow>
   1000 \<le> reconnect_delay r \<and> reconnect_delay r < 2000 \<and>
   reconnect_delay r = 1000 * 2 powr r \<and> 1000 * 2 powr r < 30000 \<and>
   scheduleReconnect r None = Some (reconnect_delay r)"
  using two_powr_bounds [of r]
  by (simp add: reconnect_delay_def scheduleReconnect_def Let_def min_def)

text \<open>The draw one half.\<close>

theorem reconnect_delay_bounds_witness:
  "(0::real) \<le> 1 / 2 \<and> (1::real) / 2 < 1 \<and>
   1000 \<le> reconnect_delay (1 / 2) \<and> reconnect_delay (1 / 2) < 2000"
  using reconnect_delay_bounds [of "1 / 2"] by simp

section \<open>A commit to the empty collection\<close>

text \<open>
  C10. For a commit event whose collection is the empty string, \<^verbatim>\<open>processEvent\<close> adds one
  to \<^verbatim>\<open>totalEvents\<close> and sets \<^verbatim>\<open>lastEventTime\<close>, and leaves \<^verbatim>\<open>eventCounts\<close> as it was.
  So there is a sequence of events, every commit of which carries a collection, after
  which the counts add up to less than \<^verbatim>\<open>totalEvents\<close>.
\<close>

theorem empty_collection_not_counted:
  "(kind ev = Commit \<and> commit ev = Some cb \<and> collection cb = [] \<longrightarrow>
      totalEvents (stats (fst (processEvent w ev p))) = totalEvents (stats p) + 1 \<and>
      lastEventTime (stats (fst (processEvent w ev p))) = now_event w \<and>
      eventCounts (stats (fst (processEvent w ev p))) = eventCounts (stats p)) \<and>
   (\<exists>es. every_commit carries_collection es \<and>
      sum_counts (eventCounts (stats (processEvents es (new_processor now))))
        < totalEvents (stats (processEvents es (new_processor now))))"
proof -
  have "every_commit carries_collection [(calm, commit_event 100 [])] \<and>
      sum_counts (eventCounts (stats (processEvents [(calm, commit_event 100 [])]
        (new_processor now))))
        < totalEvents (stats (processEvents [(calm, commit_event 100 [])] (new_processor now)))"
    by (simp add: every_commit_def carries_collection_def stats_on_message
        processEvent_eventCounts processEvent_totalEvents track_collection_counts
        sum_counts_def new_processor_def zero_stats_def plain_event_def commit_event_def)
  then have "\<exists>es. every_commit carries_collection es \<and>
      sum_counts (eventCounts (stats (processEvents es (new_processor now))))
        < totalEvents (stats (processEvents es (new_processor now)))"
    by (rule exI)
  then show ?thesis
    by (simp add: processEvent_totalEvents processEvent_lastEventTime processEvent_eventCounts
        track_collection_counts)
qed

text \<open>A commit at 100 to the empty collection, processed by a new processor.\<close>

theorem empty_collection_not_counted_witness:
  "kind (commit_event 100 []) = Commit \<and>
   totalEvents (stats (fst (processEvent calm (commit_event 100 []) (new_processor [])))) = 1 \<and>
   lastEventTime (stats (fst (processEvent calm (commit_event 100 []) (new_processor []))))
     = ''2025-06-01T00:00:00.000Z'' \<and>
   eventCounts (stats (fst (processEvent calm (commit_event 100 []) (new_processor [])))) = []"
  using empty_collection_not_counted [of "commit_event 100 []"
      "\<lparr>rev_c = ''3l3qo2vutsw2b'', operation = Create, collection = [],
        rkey = ''3l3qo2vuowo2b'', record_c = None, cid = None\<rparr>" calm "new_processor []"]
  by (simp add: commit_event_def plain_event_def new_processor_def zero_stats_def calm_def)

end
